theory Spec2Isabelle
  imports Main "HOL-Library.AList" "HOL-Library.Log_Nat"
begin

section \<open>Data model (types.ts)\<close>

text \<open>
  Strings are byte lists; text that is not ASCII in the source is written as its UTF-8
  bytes. A JavaScript object used as a dictionary (\<open>Record<string, T>\<close>) is an
  association list in insertion order: reading a key is \<open>map_of\<close>, writing one is
  \<open>AList.update\<close> (overwrite in place, or append), \<open>delete\<close> is \<open>AList.delete\<close>.
  Reading a key that is not an own property falls through to the object's prototype;
  where the program reads that way the model says so (\<open>objectPrototypeNames\<close> below).
  An optional field is an \<open>option\<close>.
\<close>

datatype TestStatus = IDLE | PASSED | FAILED | SKIPPED

text \<open>
  What a field declared \<open>TestStatus\<close> can hold at run time. The simulation service casts
  \<open>result.status\<close> without a check, so besides the four strings there is \<open>NoStatus\<close>
  (\<open>undefined\<close>, or any other falsy value) and \<open>OtherStatus t\<close> (a truthy value that is
  none of the four strings, \<open>t\<close> being the text \<open>String\<close> gives for it).
\<close>

datatype StatusValue = Declared TestStatus | NoStatus | OtherStatus string

text \<open>
  What a field declared \<open>notes?: string\<close> can hold at run time: nothing (\<open>undefined\<close>,
  or a falsy value that is not a string), a string, or a truthy value that is not a
  string (\<open>result.logs\<close> is not checked either).
\<close>

datatype NotesValue = NoNotes | NoteText string | NoteOther

datatype Priority = Low | Medium | High

datatype Role = ADMIN | MEMBER | OBSERVER

text \<open>
  What \<open>getUserRole\<close> returns: its declared type is \<open>Role | 'NONE'\<close>; \<open>Inherited\<close> is
  a value found on the prototype of the permission object, which is neither a role nor
  \<open>'NONE'\<close>.
\<close>

datatype RoleOrNone = HasRole Role | NONE | Inherited

datatype AppContextType = WEB | DESKTOP

datatype ExecutionMode = MANUAL | AUTOMATED

record TestStep =
  step_id :: string
  action :: string
  expectedResult :: string

record TestCase =
  case_id :: string
  title :: string
  case_description :: "string option"
  steps :: "TestStep list"
  priority :: Priority

record TargetConfig =
  appType :: AppContextType
  appAddress :: string
  testEmail :: "string option"
  executionMode :: "ExecutionMode option"
  mockAssets :: "string list option"

record TestSuite =
  suite_id :: string
  suite_name :: string
  suite_description :: string
  createdAt :: string
  cases :: "TestCase list"
  permissions :: "(string \<times> Role) list option"
  targetConfig :: "TargetConfig option"

record User =
  user_id :: string
  user_name :: string
  user_email :: string
  avatar :: string

section \<open>Suite manager: roles and the permission store (SuiteManager component)\<close>

text \<open>
  The component's state that the modelled handlers read or write. \<open>suites\<close> is the
  collection owned by the application and replaced through \<open>setSuites\<close>;
  \<open>genOpRef\<close> is the mutable reference holding the current generation token.
\<close>

record SuiteManager =
  suites :: "TestSuite list"
  activeSuiteId :: "string option"
  isGenerating :: bool
  prompt :: string
  showPromptModal :: bool
  importMode :: bool
  appType_st :: AppContextType
  appContextValue :: string
  testEmail_st :: string
  showRunModal :: bool
  runAppType :: AppContextType
  runAddress :: string
  runEmail :: string
  runMode :: ExecutionMode
  runAssets :: "string list"
  permUserToAdd :: string
  permRoleToAdd :: Role
  availableSheets :: "string list"
  currentFile :: "string option"
  genOpRef :: int

definition SUPER_ADMIN_EMAIL :: string where
  "SUPER_ADMIN_EMAIL = ''administrator@autotest.ai''"

text \<open>\<open>suites.find(s => s.id === activeSuiteId)\<close>: the first suite with that id.\<close>

definition activeSuite :: "SuiteManager \<Rightarrow> TestSuite option" where
  "activeSuite st =
     (case activeSuiteId st of
        None \<Rightarrow> None
      | Some i \<Rightarrow> find (\<lambda>s. suite_id s = i) (suites st))"

definition isGlobalAdmin :: "User \<Rightarrow> bool" where
  "isGlobalAdmin currentUser \<longleftrightarrow> user_email currentUser = SUPER_ADMIN_EMAIL"

text \<open>
  The property names every plain object inherits from \<open>Object.prototype\<close> (ECMAScript,
  with its Annex B). Each of them reads as a function or an object, which is truthy.
\<close>

definition objectPrototypeNames :: "string list" where
  "objectPrototypeNames =
     [''constructor'', ''hasOwnProperty'', ''isPrototypeOf'', ''propertyIsEnumerable'',
      ''toLocaleString'', ''toString'', ''valueOf'', ''__proto__'', ''__defineGetter__'',
      ''__defineSetter__'', ''__lookupGetter__'', ''__lookupSetter__'']"

text \<open>
  \<open>suite.permissions[currentUser.id] || 'NONE'\<close>: an own entry is a role; without one
  the read finds an inherited property when the id is one of those names, and only
  otherwise \<open>undefined\<close>, which the \<open>||\<close> turns into \<open>'NONE'\<close>.
\<close>

definition getUserRole :: "User \<Rightarrow> TestSuite \<Rightarrow> RoleOrNone" where
  "getUserRole currentUser suite =
     (if isGlobalAdmin currentUser then HasRole ADMIN
      else case permissions suite of
             None \<Rightarrow> NONE
           | Some ps \<Rightarrow>
               (case map_of ps (user_id currentUser) of
                  Some r \<Rightarrow> HasRole r
                | None \<Rightarrow>
                    if user_id currentUser \<in> set objectPrototypeNames then Inherited
                    else NONE))"

definition activeRole :: "User \<Rightarrow> SuiteManager \<Rightarrow> RoleOrNone" where
  "activeRole currentUser st =
     (case activeSuite st of None \<Rightarrow> NONE | Some s \<Rightarrow> getUserRole currentUser s)"

definition canWrite :: "User \<Rightarrow> SuiteManager \<Rightarrow> bool" where
  "canWrite currentUser st \<longleftrightarrow>
     activeRole currentUser st = HasRole ADMIN \<or> activeRole currentUser st = HasRole MEMBER"

definition canRun :: "User \<Rightarrow> SuiteManager \<Rightarrow> bool" where
  "canRun currentUser st \<longleftrightarrow>
     activeRole currentUser st = HasRole ADMIN \<or> activeRole currentUser st = HasRole MEMBER"

definition canDelete :: "User \<Rightarrow> SuiteManager \<Rightarrow> bool" where
  "canDelete currentUser st \<longleftrightarrow> activeRole currentUser st = HasRole ADMIN"

definition canManageAccess :: "User \<Rightarrow> SuiteManager \<Rightarrow> bool" where
  "canManageAccess currentUser st \<longleftrightarrow> activeRole currentUser st = HasRole ADMIN"

definition visibleSuites :: "User \<Rightarrow> TestSuite list \<Rightarrow> TestSuite list" where
  "visibleSuites currentUser ss = filter (\<lambda>s. getUserRole currentUser s \<noteq> NONE) ss"

text \<open>The two literals of \<open>createSuite\<close>, as UTF-8 bytes.\<close>

definition NEW_SUITE_NAME :: string where
  "NEW_SUITE_NAME =
     [CHR 0xEC, CHR 0x83, CHR 0x88, CHR '' '', CHR 0xED, CHR 0x85, CHR 0x8C, CHR 0xEC,
      CHR 0x8A, CHR 0xA4, CHR 0xED, CHR 0x8A, CHR 0xB8, CHR '' '', CHR 0xEC, CHR 0x8A,
      CHR 0xA4, CHR 0xEC, CHR 0x9C, CHR 0x84, CHR 0xED, CHR 0x8A, CHR 0xB8]"

definition NEW_SUITE_DESCRIPTION :: string where
  "NEW_SUITE_DESCRIPTION =
     [CHR 0xED, CHR 0x85, CHR 0x8C, CHR 0xEC, CHR 0x8A, CHR 0xA4, CHR 0xED, CHR 0x8A,
      CHR 0xB8, CHR '' '', CHR 0xEC, CHR 0x8A, CHR 0xA4, CHR 0xEC, CHR 0x9C, CHR 0x84,
      CHR 0xED, CHR 0x8A, CHR 0xB8, CHR '' '', CHR 0xEC, CHR 0x84, CHR 0xA4, CHR 0xEB,
      CHR 0xAA, CHR 0x85]"

text \<open>
  \<open>createSuite\<close>; \<open>uuid\<close> is what \<open>crypto.randomUUID()\<close> returns and \<open>now\<close> what
  \<open>new Date().toISOString()\<close> returns.
\<close>

definition createSuite :: "User \<Rightarrow> string \<Rightarrow> string \<Rightarrow> SuiteManager \<Rightarrow> SuiteManager" where
  "createSuite currentUser uuid now st =
     (let newSuite = \<lparr> suite_id = uuid, suite_name = NEW_SUITE_NAME,
                        suite_description = NEW_SUITE_DESCRIPTION, createdAt = now,
                        cases = [], permissions = Some [(user_id currentUser, ADMIN)],
                        targetConfig = None \<rparr>
      in st\<lparr> suites := suites st @ [newSuite], activeSuiteId := Some (suite_id newSuite) \<rparr>)"

text \<open>\<open>{ ...activeSuite.permissions }\<close>: spreading an absent mapping gives the empty one.\<close>

definition spreadPermissions :: "TestSuite \<Rightarrow> (string \<times> Role) list" where
  "spreadPermissions s = (case permissions s of None \<Rightarrow> [] | Some ps \<Rightarrow> ps)"

definition handleAddPermission :: "SuiteManager \<Rightarrow> SuiteManager" where
  "handleAddPermission st =
     (case activeSuite st of
        None \<Rightarrow> st
      | Some a \<Rightarrow>
          if permUserToAdd st = [] then st
          else
            let updatedSuite =
                  a\<lparr> permissions :=
                       Some (AList.update (permUserToAdd st) (permRoleToAdd st)
                               (spreadPermissions a)) \<rparr>
            in st\<lparr> suites := map (\<lambda>s. if suite_id s = suite_id a then updatedSuite else s)
                                 (suites st),
                    permUserToAdd := [] \<rparr>)"

text \<open>
  The yes/no dialogs of the component (\<open>window.confirm\<close>). A handler that may ask takes
  the operator's answer as the function \<open>confirm\<close> and returns the dialogs it has shown
  together with the new state.
\<close>

datatype Dialog = ConfirmSelfRemoval | ConfirmDeleteSuite

definition handleRemovePermission ::
  "User \<Rightarrow> (Dialog \<Rightarrow> bool) \<Rightarrow> string \<Rightarrow> SuiteManager \<Rightarrow> Dialog list \<times> SuiteManager" where
  "handleRemovePermission currentUser confirm userId st =
     (case activeSuite st of
        None \<Rightarrow> ([], st)
      | Some a \<Rightarrow>
          let self = (userId = user_id currentUser \<and> \<not> isGlobalAdmin currentUser);
              asked = (if self then [ConfirmSelfRemoval] else [])
          in if self \<and> \<not> confirm ConfirmSelfRemoval then (asked, st)
             else
               let newPerms = AList.delete userId (spreadPermissions a);
                   updatedSuite = a\<lparr> permissions := Some newPerms \<rparr>;
                   st1 = st\<lparr> suites := map (\<lambda>s. if suite_id s = suite_id a
                                                  then updatedSuite else s) (suites st) \<rparr>
               in (asked, if self then st1\<lparr> activeSuiteId := None \<rparr> else st1))"

definition handleChangePermission :: "string \<Rightarrow> Role \<Rightarrow> SuiteManager \<Rightarrow> SuiteManager" where
  "handleChangePermission userId newRole st =
     (case activeSuite st of
        None \<Rightarrow> st
      | Some a \<Rightarrow>
          let updatedSuite =
                a\<lparr> permissions := Some (AList.update userId newRole (spreadPermissions a)) \<rparr>
          in st\<lparr> suites := map (\<lambda>s. if suite_id s = suite_id a then updatedSuite else s)
                               (suites st) \<rparr>)"

text \<open>
  \<open>confirmRun\<close> freezes the dialog's draft onto the active suite and hands the updated
  suite to \<open>onRunSuite\<close>; the second component is that run request, if any.
\<close>

definition confirmRun :: "SuiteManager \<Rightarrow> SuiteManager \<times> TestSuite option" where
  "confirmRun st =
     (case activeSuite st of
        None \<Rightarrow> (st, None)
      | Some a \<Rightarrow>
          let updatedSuite =
                a\<lparr> targetConfig :=
                     Some \<lparr> appType = runAppType st, appAddress = runAddress st,
                            testEmail = Some (runEmail st),
                            executionMode = Some (runMode st),
                            mockAssets = Some (runAssets st) \<rparr> \<rparr>
          in (st\<lparr> suites := map (\<lambda>s. if suite_id s = suite_id a then updatedSuite else s)
                                (suites st),
                  showRunModal := False \<rparr>,
              Some updatedSuite))"

section \<open>The generation and simulation service (geminiService.ts)\<close>

datatype Exn = ApiError | NoResponseError | SyntaxError | TypeError

text \<open>
  What the remote call of \<open>simulateTestExecution\<close> does: the client or the request
  throws (\<open>CallFails\<close>); the response has no text (\<open>NoText\<close>); \<open>JSON.parse\<close> throws
  (\<open>ParseThrows\<close>); the text parses to \<open>null\<close>, on which reading \<open>.status\<close> throws
  (\<open>ParsedNull\<close>); or it parses to any other value, and \<open>Parsed s l\<close> gives what
  \<open>result.status\<close> and \<open>result.logs\<close> read on it, whatever they are: for the text
  \<open>{}\<close> both are \<open>undefined\<close>, that is \<open>Parsed NoStatus NoNotes\<close>.
\<close>

datatype RemoteOutcome =
    CallFails | NoText | ParseThrows | ParsedNull | Parsed StatusValue NotesValue

record SimResult =
  sim_status :: StatusValue
  sim_notes :: NotesValue

text \<open>The catch block's note, \<open>AI\<close> followed by two Korean words, as UTF-8 bytes.\<close>

definition SIMULATION_FAILED_NOTE :: string where
  "SIMULATION_FAILED_NOTE =
     [CHR ''A'', CHR ''I'', CHR '' '', CHR 0xEC, CHR 0x8B, CHR 0x9C, CHR 0xEB, CHR 0xAE,
      CHR 0xAC, CHR 0xEB, CHR 0xA0, CHR 0x88, CHR 0xEC, CHR 0x9D, CHR 0xB4, CHR 0xEC,
      CHR 0x85, CHR 0x98, CHR '' '', CHR 0xEC, CHR 0x8B, CHR 0xA4, CHR 0xED, CHR 0x8C,
      CHR 0xA8]"

text \<open>The body of the \<open>try\<close> block: \<open>Inl\<close> is a thrown exception.\<close>

definition simulate_try :: "RemoteOutcome \<Rightarrow> Exn + SimResult" where
  "simulate_try out =
     (case out of
        CallFails \<Rightarrow> Inl ApiError
      | NoText \<Rightarrow> Inl NoResponseError
      | ParseThrows \<Rightarrow> Inl SyntaxError
      | ParsedNull \<Rightarrow> Inl TypeError
      | Parsed s logs \<Rightarrow> Inr \<lparr> sim_status = s, sim_notes = logs \<rparr>)"

text \<open>
  \<open>simulateTestExecution\<close>: the settlement of the promise it returns, \<open>Inl\<close> a
  rejection and \<open>Inr\<close> a fulfilment.
\<close>

definition simulateTestExecution :: "RemoteOutcome \<Rightarrow> Exn + SimResult" where
  "simulateTestExecution out =
     (case simulate_try out of
        Inl e \<Rightarrow> Inr \<lparr> sim_status = Declared SKIPPED,
                       sim_notes = NoteText SIMULATION_FAILED_NOTE \<rparr>
      | Inr r \<Rightarrow> Inr r)"

section \<open>Suite manager: generation requests and their token\<close>

text \<open>
  The white space and line terminators that \<open>String.prototype.trim\<close> strips, each as
  the UTF-8 bytes of its code point: U+0009 to U+000D, U+0020, U+00A0, U+1680, U+2000 to
  U+200A, U+2028, U+2029, U+202F, U+205F, U+3000 and U+FEFF.
\<close>

definition jsWhiteSpace :: "string list" where
  "jsWhiteSpace =
     [[CHR 0x09], [CHR 0x0A], [CHR 0x0B], [CHR 0x0C], [CHR 0x0D], [CHR 0x20],
      [CHR 0xC2, CHR 0xA0], [CHR 0xE1, CHR 0x9A, CHR 0x80],
      [CHR 0xE2, CHR 0x80, CHR 0x80], [CHR 0xE2, CHR 0x80, CHR 0x81],
      [CHR 0xE2, CHR 0x80, CHR 0x82], [CHR 0xE2, CHR 0x80, CHR 0x83],
      [CHR 0xE2, CHR 0x80, CHR 0x84], [CHR 0xE2, CHR 0x80, CHR 0x85],
      [CHR 0xE2, CHR 0x80, CHR 0x86], [CHR 0xE2, CHR 0x80, CHR 0x87],
      [CHR 0xE2, CHR 0x80, CHR 0x88], [CHR 0xE2, CHR 0x80, CHR 0x89],
      [CHR 0xE2, CHR 0x80, CHR 0x8A], [CHR 0xE2, CHR 0x80, CHR 0xA8],
      [CHR 0xE2, CHR 0x80, CHR 0xA9], [CHR 0xE2, CHR 0x80, CHR 0xAF],
      [CHR 0xE2, CHR 0x81, CHR 0x9F], [CHR 0xE3, CHR 0x80, CHR 0x80],
      [CHR 0xEF, CHR 0xBB, CHR 0xBF]]"

text \<open>
  Whether a string is white space only: \<open>onlyWhiteSpace k s\<close> skips the \<open>k\<close> bytes that
  remain of a code point already recognised, and then recognises the next one.
\<close>

fun onlyWhiteSpace :: "nat \<Rightarrow> string \<Rightarrow> bool" where
  "onlyWhiteSpace k [] = (k = 0)"
| "onlyWhiteSpace (Suc k) (c # cs) = onlyWhiteSpace k cs"
| "onlyWhiteSpace 0 (c # cs) =
     (case find (\<lambda>w. take (length w) (c # cs) = w) jsWhiteSpace of
        None \<Rightarrow> False
      | Some w \<Rightarrow> onlyWhiteSpace (length w - 1) cs)"

text \<open>\<open>!prompt.trim()\<close>: nothing is left of the prompt once it is trimmed.\<close>

definition trimIsEmpty :: "string \<Rightarrow> bool" where
  "trimIsEmpty s \<longleftrightarrow> onlyWhiteSpace 0 s"

text \<open>
  What the asynchronous \<open>handleGenerateCases\<close> keeps in its closure across the
  \<open>await\<close>: its token and the values of the render that started it.
\<close>

record GenRequest =
  opId :: int
  req_activeSuiteId :: string
  req_importMode :: bool
  req_appType :: AppContextType
  req_appContextValue :: string
  req_testEmail :: string

definition resetModalState :: "SuiteManager \<Rightarrow> SuiteManager" where
  "resetModalState st =
     st\<lparr> prompt := [], importMode := False, availableSheets := [], currentFile := None,
         appContextValue := [], testEmail_st := [], appType_st := WEB \<rparr>"

text \<open>
  \<open>handleGenerateCases\<close> up to its \<open>await\<close>; \<open>now\<close> is what \<open>Date.now()\<close> returns.
  No request is issued when the guards fail.
\<close>

definition handleGenerateCases_start ::
  "User \<Rightarrow> int \<Rightarrow> SuiteManager \<Rightarrow> SuiteManager \<times> GenRequest option" where
  "handleGenerateCases_start currentUser now st =
     (if \<not> canWrite currentUser st then (st, None)
      else if trimIsEmpty (prompt st) then (st, None)
      else case activeSuiteId st of
             None \<Rightarrow> (st, None)
           | Some aid \<Rightarrow>
               if aid = [] then (st, None)
               else (st\<lparr> genOpRef := now, isGenerating := True \<rparr>,
                     Some \<lparr> opId = now, req_activeSuiteId = aid,
                            req_importMode = importMode st, req_appType = appType_st st,
                            req_appContextValue = appContextValue st,
                            req_testEmail = testEmail_st st \<rparr>))"

datatype Notice = AlertGenerationFailed

text \<open>
  The rest of \<open>handleGenerateCases\<close>, run when the promise of \<open>generateTestCases\<close>
  settles with \<open>res\<close> (\<open>Inl\<close> a rejection, \<open>Inr\<close> the generated cases): the token check,
  the functional update of the suites, and the \<open>catch\<close> and \<open>finally\<close> blocks. The
  alerts shown are returned with the new state.
\<close>

definition handleGenerateCases_settle ::
  "GenRequest \<Rightarrow> Exn + TestCase list \<Rightarrow> SuiteManager \<Rightarrow> Notice list \<times> SuiteManager" where
  "handleGenerateCases_settle req res st =
     (case res of
        Inr newCases \<Rightarrow>
          if genOpRef st \<noteq> opId req then ([], st)
          else
            let st1 = st\<lparr> suites :=
                   map (\<lambda>suite.
                          if suite_id suite = req_activeSuiteId req then
                            let updatedSuite = suite\<lparr> cases := cases suite @ newCases \<rparr>
                            in if targetConfig suite = None \<and> \<not> req_importMode req
                               then updatedSuite\<lparr> targetConfig :=
                                      Some \<lparr> appType = req_appType req,
                                             appAddress = req_appContextValue req,
                                             testEmail = Some (req_testEmail req),
                                             executionMode = None, mockAssets = None \<rparr> \<rparr>
                               else updatedSuite
                          else suite)
                       (suites st) \<rparr>;
                st2 = resetModalState (st1\<lparr> showPromptModal := False \<rparr>)
            in ([], st2\<lparr> isGenerating := False \<rparr>)
      | Inl e \<Rightarrow>
          if genOpRef st = opId req
          then ([AlertGenerationFailed], st\<lparr> isGenerating := False \<rparr>)
          else ([], st))"

definition handleCancelGeneration :: "SuiteManager \<Rightarrow> SuiteManager" where
  "handleCancelGeneration st =
     st\<lparr> genOpRef := 0, isGenerating := False, showPromptModal := False \<rparr>"

definition openGenerateModal :: "SuiteManager \<Rightarrow> SuiteManager" where
  "openGenerateModal st = (resetModalState st)\<lparr> importMode := False, showPromptModal := True \<rparr>"

text \<open>The text area's \<open>onChange\<close>.\<close>

definition setPrompt :: "string \<Rightarrow> SuiteManager \<Rightarrow> SuiteManager" where
  "setPrompt p st = st\<lparr> prompt := p \<rparr>"

section \<open>Test runner (TestRunner component)\<close>

text \<open>
  \<open>caseId\<close> is optional here although the interface declares it: \<open>handleStatus\<close>
  builds its entry by spreading the previous one, which may be absent.
  The field \<open>notes\<close> of the interface is \<open>result_notes\<close> here.
\<close>

record TestResult =
  caseId :: "string option"
  status :: StatusValue
  result_notes :: NotesValue
  timestamp :: string

text \<open>
  What \<open>runSimulation\<close> keeps in its closure across the \<open>await\<close>: the case, the
  result mapping and the last-case flag of the render that started it. It holds no token.
\<close>

record SimClosure =
  cl_case :: TestCase
  cl_results :: "(string \<times> TestResult) list"
  cl_isLastCase :: bool

text \<open>
  The component's state, with what is scheduled and not yet run: the manual mode's
  200 ms advance timers (never cleared), the automation effect's 1500 ms timer (cleared
  by the effect's cleanup) and the simulation requests in flight.
\<close>

record TestRunner =
  currentCaseIndex :: nat
  results :: "(string \<times> TestResult) list"
  isAutoRunning :: bool
  simulatedLogs :: "(string \<times> NotesValue) list"
  autoRunRef :: bool
  advanceTimers :: nat
  autoTimer :: bool
  inflight :: "SimClosure list"

definition AUTOMATION_FAILED_NOTE :: string where
  "AUTOMATION_FAILED_NOTE = ''Automation execution failed.''"

definition isAutomatedMode :: "TestSuite \<Rightarrow> bool" where
  "isAutomatedMode suite =
     (case targetConfig suite of
        None \<Rightarrow> False
      | Some cfg \<Rightarrow> executionMode cfg = Some AUTOMATED)"

text \<open>\<open>suite.cases[currentCaseIndex]\<close>; \<open>None\<close> is \<open>undefined\<close>.\<close>

definition currentCase :: "TestSuite \<Rightarrow> TestRunner \<Rightarrow> TestCase option" where
  "currentCase suite r =
     (if currentCaseIndex r < length (cases suite)
      then Some (cases suite ! currentCaseIndex r) else None)"

definition isLastCase :: "TestSuite \<Rightarrow> TestRunner \<Rightarrow> bool" where
  "isLastCase suite r \<longleftrightarrow> int (currentCaseIndex r) = int (length (cases suite)) - 1"

text \<open>\<open>results[id]?.status\<close>.\<close>

definition statusOf :: "(string \<times> TestResult) list \<Rightarrow> string \<Rightarrow> StatusValue option" where
  "statusOf rs cid = map_option status (map_of rs cid)"

text \<open>The initial mapping built by the first effect: one \<open>IDLE\<close> entry per case.\<close>

definition initialResults :: "TestCase list \<Rightarrow> string \<Rightarrow> (string \<times> TestResult) list" where
  "initialResults cs now =
     fold (\<lambda>c acc. AList.update (case_id c)
                      \<lparr> caseId = Some (case_id c), status = Declared IDLE,
                        result_notes = NoNotes, timestamp = now \<rparr> acc)
          cs []"

text \<open>Whether a note is truthy: a non-empty string, or a truthy value of another type.\<close>

definition truthyNotes :: "NotesValue \<Rightarrow> bool" where
  "truthyNotes n = (case n of NoNotes \<Rightarrow> False | NoteText t \<Rightarrow> t \<noteq> [] | NoteOther \<Rightarrow> True)"

text \<open>
  \<open>notes || results[id].notes\<close>: a truthy note is kept; otherwise the previous entry's
  note is read, which throws a TypeError (\<open>None\<close>) when there is no entry.
\<close>

definition resolveNotes :: "NotesValue \<Rightarrow> TestResult option \<Rightarrow> NotesValue option" where
  "resolveNotes given old =
     (if truthyNotes given then Some given
      else case old of None \<Rightarrow> None | Some e \<Rightarrow> Some (result_notes e))"

text \<open>
  \<open>handleStatus\<close> once the note is known: the entry of the closure's case is replaced
  in the closure's mapping, which becomes the state, and in manual mode a verdict on a
  case that is not the last schedules an advance of the cursor.
\<close>

definition writeStatus ::
  "TestSuite \<Rightarrow> SimClosure \<Rightarrow> StatusValue \<Rightarrow> NotesValue \<Rightarrow> string \<Rightarrow> TestRunner \<Rightarrow> TestRunner" where
  "writeStatus suite cl st n now r =
     (let cid = case_id (cl_case cl);
          old = map_of (cl_results cl) cid;
          entry = \<lparr> caseId = (case old of None \<Rightarrow> None | Some e \<Rightarrow> caseId e),
                    status = st, result_notes = n, timestamp = now \<rparr>;
          r1 = r\<lparr> results := AList.update cid entry (cl_results cl) \<rparr>
      in if \<not> isAutomatedMode suite \<and> st \<noteq> Declared IDLE \<and> \<not> cl_isLastCase cl
         then r1\<lparr> advanceTimers := Suc (advanceTimers r1) \<rparr> else r1)"

definition handleStatus ::
  "TestSuite \<Rightarrow> SimClosure \<Rightarrow> StatusValue \<Rightarrow> NotesValue \<Rightarrow> string \<Rightarrow> TestRunner
     \<Rightarrow> TestRunner option" where
  "handleStatus suite cl st given now r =
     (case resolveNotes given (map_of (cl_results cl) (case_id (cl_case cl))) of
        None \<Rightarrow> None
      | Some n \<Rightarrow> Some (writeStatus suite cl st n now r))"

text \<open>
  The automation effect, run after a render in which one of its dependencies changed:
  first the cleanup of its previous run (the timer is cleared), then its body. \<open>None\<close>
  is the TypeError of \<open>currentCase.id\<close> on a cursor out of range.
\<close>

definition autoEffect :: "TestSuite \<Rightarrow> TestRunner \<Rightarrow> TestRunner option" where
  "autoEffect suite r =
     (let r0 = r\<lparr> autoTimer := False \<rparr>
      in if \<not> isAutomatedMode suite \<or> \<not> isAutoRunning r0 then Some r0
         else case currentCase suite r0 of
                None \<Rightarrow> None
              | Some c \<Rightarrow>
                  if statusOf (results r0) (case_id c) \<noteq> Some (Declared IDLE) then
                    (if \<not> isLastCase suite r0 then Some (r0\<lparr> autoTimer := True \<rparr>)
                     else Some (r0\<lparr> isAutoRunning := False \<rparr>))
                  else Some (r0\<lparr> inflight := inflight r0 @
                                  [\<lparr> cl_case = c, cl_results = results r0,
                                     cl_isLastCase = isLastCase suite r0 \<rparr>] \<rparr>))"

text \<open>
  A render reads \<open>currentCase.priority\<close> and throws when the cursor is out of range;
  otherwise the effect runs. Nothing else of a render is modelled.
\<close>

definition rerender :: "TestSuite \<Rightarrow> TestRunner \<Rightarrow> TestRunner option" where
  "rerender suite r = (if currentCase suite r = None then None else autoEffect suite r)"

text \<open>
  Mounting the component: the first render with the initial state, the initialisation
  effect (\<open>now\<close> is its timestamp), and the render that follows.
\<close>

definition mount :: "TestSuite \<Rightarrow> string \<Rightarrow> TestRunner option" where
  "mount suite now =
     (let r0 = \<lparr> currentCaseIndex = 0, results = [], isAutoRunning = False,
                 simulatedLogs = [], autoRunRef = False, advanceTimers = 0,
                 autoTimer = False, inflight = [] \<rparr>
      in if currentCase suite r0 = None then None
         else
           let r1 = r0\<lparr> results := initialResults (cases suite) now \<rparr>;
               r2 = (if isAutomatedMode suite
                     then r1\<lparr> isAutoRunning := True, autoRunRef := True \<rparr> else r1)
           in rerender suite r2)"

text \<open>
  \<open>runSimulation\<close> after its \<open>await\<close>: the promise of \<open>simulateTestExecution\<close> has
  settled with \<open>res\<close>. A TypeError of \<open>handleStatus\<close> inside the \<open>try\<close> is caught
  like a rejection.
\<close>

definition runSimulation_settle ::
  "TestSuite \<Rightarrow> SimClosure \<Rightarrow> Exn + SimResult \<Rightarrow> string \<Rightarrow> TestRunner \<Rightarrow> TestRunner" where
  "runSimulation_settle suite cl res now r =
     (case res of
        Inl e \<Rightarrow> writeStatus suite cl (Declared SKIPPED) (NoteText AUTOMATION_FAILED_NOTE) now r
      | Inr result \<Rightarrow>
          let r1 = r\<lparr> simulatedLogs :=
                       AList.update (case_id (cl_case cl)) (sim_notes result)
                         (simulatedLogs r) \<rparr>
          in (case handleStatus suite cl (sim_status result) (sim_notes result) now r1 of
                Some r2 \<Rightarrow> r2
              | None \<Rightarrow> writeStatus suite cl (Declared SKIPPED)
                         (NoteText AUTOMATION_FAILED_NOTE) now r1))"

text \<open>
  What can happen to a mounted runner: a verdict button, a due advance timer, the two
  arrows, a click in the case list, the automation timer, and the settlement of the
  k-th request in flight.
\<close>

datatype Event =
    Verdict TestStatus string
  | AdvanceTimerFires
  | PrevClick
  | NextClick
  | SelectCase nat
  | AutoTimerFires
  | SimSettles nat "Exn + SimResult" string

text \<open>
  One event on a mounted runner. A control that is not rendered or is disabled leaves
  the state as it is; \<open>None\<close> is a TypeError that takes the component down.
\<close>

definition step :: "TestSuite \<Rightarrow> Event \<Rightarrow> TestRunner \<Rightarrow> TestRunner option" where
  "step suite ev r =
     (case ev of
        Verdict st now \<Rightarrow>
          if isAutomatedMode suite then Some r
          else (case currentCase suite r of
                  None \<Rightarrow> None
                | Some c \<Rightarrow>
                    (case handleStatus suite
                            \<lparr> cl_case = c, cl_results = results r,
                              cl_isLastCase = isLastCase suite r \<rparr>
                            (Declared st) NoNotes now r of
                       None \<Rightarrow> None
                     | Some r1 \<Rightarrow> rerender suite r1))
      | AdvanceTimerFires \<Rightarrow>
          if advanceTimers r = 0 then Some r
          else rerender suite (r\<lparr> advanceTimers := advanceTimers r - 1,
                                   currentCaseIndex := currentCaseIndex r + 1 \<rparr>)
      | PrevClick \<Rightarrow>
          if currentCaseIndex r = 0 \<or> isAutoRunning r then Some r
          else rerender suite (r\<lparr> currentCaseIndex := currentCaseIndex r - 1 \<rparr>)
      | NextClick \<Rightarrow>
          if isLastCase suite r \<or> isAutoRunning r then Some r
          else rerender suite
                 (r\<lparr> currentCaseIndex :=
                       min (length (cases suite) - 1) (currentCaseIndex r + 1) \<rparr>)
      | SelectCase idx \<Rightarrow>
          if isAutomatedMode suite \<or> \<not> idx < length (cases suite) then Some r
          else rerender suite (r\<lparr> currentCaseIndex := idx \<rparr>)
      | AutoTimerFires \<Rightarrow>
          if \<not> autoTimer r then Some r
          else rerender suite (r\<lparr> currentCaseIndex := currentCaseIndex r + 1 \<rparr>)
      | SimSettles k res now \<Rightarrow>
          if \<not> k < length (inflight r) then Some r
          else rerender suite
                 (runSimulation_settle suite (inflight r ! k) res now
                    (r\<lparr> inflight := take k (inflight r) @ drop (Suc k) (inflight r) \<rparr>)))"

fun run :: "TestSuite \<Rightarrow> Event list \<Rightarrow> TestRunner \<Rightarrow> TestRunner option" where
  "run suite [] r = Some r"
| "run suite (ev # evs) r =
     (case step suite ev r of None \<Rightarrow> None | Some r1 \<Rightarrow> run suite evs r1)"

text \<open>
  The invariant of the automated loop, used in the proofs below: the cursor is in range,
  no manual advance is scheduled, the automation timer is armed only while the loop runs
  on a case that is not the last and with no request in flight, and a request in flight is
  the only one, was issued from the present cursor and result mapping, and is for a case
  whose status is \<open>IDLE\<close>.
\<close>

definition autoInv :: "TestSuite \<Rightarrow> TestRunner \<Rightarrow> bool" where
  "autoInv suite r \<longleftrightarrow>
     currentCaseIndex r < length (cases suite) \<and> advanceTimers r = 0 \<and>
     (autoTimer r \<longrightarrow> isAutoRunning r \<and> inflight r = [] \<and>
                     Suc (currentCaseIndex r) < length (cases suite)) \<and>
     (inflight r = [] \<or>
      (isAutoRunning r \<and>
       inflight r = [\<lparr> cl_case = cases suite ! currentCaseIndex r, cl_results = results r,
                        cl_isLastCase = isLastCase suite r \<rparr>] \<and>
       statusOf (results r) (case_id (cases suite ! currentCaseIndex r))
         = Some (Declared IDLE)))"


subsection \<open>Export\<close>

definition statusText :: "TestStatus \<Rightarrow> string" where
  "statusText s =
     (case s of IDLE \<Rightarrow> ''IDLE'' | PASSED \<Rightarrow> ''PASSED'' | FAILED \<Rightarrow> ''FAILED''
      | SKIPPED \<Rightarrow> ''SKIPPED'')"

definition priorityText :: "Priority \<Rightarrow> string" where
  "priorityText p = (case p of Low \<Rightarrow> ''Low'' | Medium \<Rightarrow> ''Medium'' | High \<Rightarrow> ''High'')"

text \<open>\<open>replace(/"/g, '""')\<close>; the double quote is character 0x22.\<close>

definition escapeQuotes :: "string \<Rightarrow> string" where
  "escapeQuotes s = concat (map (\<lambda>c. if c = CHR 0x22 then [CHR 0x22, CHR 0x22] else [c]) s)"

definition quoted :: "string \<Rightarrow> string" where
  "quoted s = [CHR 0x22] @ s @ [CHR 0x22]"

fun join :: "string \<Rightarrow> string list \<Rightarrow> string" where
  "join sep [] = []"
| "join sep [x] = x"
| "join sep (x # y # ys) = x @ sep @ join sep (y # ys)"

text \<open>
  \<open>result?.status || 'SKIPPED'\<close>, as \<open>join\<close> writes it: the fallback stands in for a
  missing entry and for a falsy status; every other status is written as it is.
\<close>

definition exportStatus :: "TestResult option \<Rightarrow> string" where
  "exportStatus result =
     (case result of
        None \<Rightarrow> ''SKIPPED''
      | Some e \<Rightarrow>
          (case status e of
             Declared st \<Rightarrow> statusText st
           | NoStatus \<Rightarrow> ''SKIPPED''
           | OtherStatus t \<Rightarrow> t))"

text \<open>
  \<open>result?.notes ? result.notes.replace(/"/g, '""') : ''\<close>: a truthy note that is not a
  string has no \<open>replace\<close>, and the call throws a TypeError.
\<close>

definition exportNotes :: "TestResult option \<Rightarrow> Exn + string" where
  "exportNotes result =
     (case result of
        None \<Rightarrow> Inr []
      | Some e \<Rightarrow>
          (case result_notes e of
             NoNotes \<Rightarrow> Inr []
           | NoteText n \<Rightarrow> Inr (escapeQuotes n)
           | NoteOther \<Rightarrow> Inl TypeError))"

text \<open>The fields of one row, before they are joined: id, title, priority, status, notes.\<close>

definition exportFields :: "(string \<times> TestResult) list \<Rightarrow> TestCase \<Rightarrow> Exn + string list" where
  "exportFields rs c =
     (let result = map_of rs (case_id c);
          st = exportStatus result
      in case exportNotes result of
           Inl e \<Rightarrow> Inl e
         | Inr nt \<Rightarrow>
             Inr [quoted (case_id c), quoted (escapeQuotes (title c)),
                  priorityText (priority c), st, quoted nt])"

text \<open>\<open>suite.cases.map\<close> over the rows: the first row that throws ends the export.\<close>

fun exportRows :: "(string \<times> TestResult) list \<Rightarrow> TestCase list \<Rightarrow> Exn + string list" where
  "exportRows rs [] = Inr []"
| "exportRows rs (c # cs) =
     (case exportFields rs c of
        Inl e \<Rightarrow> Inl e
      | Inr fs \<Rightarrow>
          (case exportRows rs cs of
             Inl e \<Rightarrow> Inl e
           | Inr rows \<Rightarrow> Inr (join '','' fs # rows)))"

definition exportHeaders :: "string list" where
  "exportHeaders =
     [''Test Case ID'', ''Title'', ''Priority'', ''Status'', ''Execution Notes/Logs'']"

text \<open>The byte order mark U+FEFF, as UTF-8 bytes.\<close>

definition BOM :: string where
  "BOM = [CHR 0xEF, CHR 0xBB, CHR 0xBF]"

text \<open>
  \<open>exportResults\<close>: the text of the downloaded file, or the exception that ends the
  handler before any download, and the component's state, which the function does not
  write.
\<close>

definition exportResults :: "TestSuite \<Rightarrow> TestRunner \<Rightarrow> (Exn + string) \<times> TestRunner" where
  "exportResults suite r =
     (case exportRows (results r) (cases suite) of
        Inl e \<Rightarrow> (Inl e, r)
      | Inr rows \<Rightarrow>
          let csvContent = join [CHR 0x0A] (join '','' exportHeaders # rows)
          in (Inr (BOM @ csvContent), r))"


section \<open>Run outcome (handleRunComplete in App)\<close>

datatype RunStatus = IN_PROGRESS | COMPLETED

record TestRun =
  run_id :: string
  run_suiteId :: string
  run_suiteName :: string
  startTime :: string
  endTime :: "string option"
  run_status :: RunStatus
  run_results :: "(string \<times> TestResult) list"

definition handleFinish :: "TestSuite \<Rightarrow> string \<Rightarrow> string \<Rightarrow> string \<Rightarrow> TestRunner \<Rightarrow> TestRun" where
  "handleFinish suite uuid start now r =
     \<lparr> run_id = uuid, run_suiteId = suite_id suite, run_suiteName = suite_name suite,
       startTime = start, endTime = Some now, run_status = COMPLETED,
       run_results = results r \<rparr>"

subsection \<open>JavaScript numbers\<close>

text \<open>
  A finite non-negative double is the rational it denotes. \<open>fl\<close> rounds a rational to
  the nearest double, ties to even, as every arithmetic operation of IEEE 754 does with
  its exact result; it is right in the normal range, which the percentages of a run
  with fewer than \<open>2^53\<close> cases never leave. \<open>ilog2 q\<close> is the exponent of the
  binade of \<open>q\<close>.
\<close>

definition ilog2 :: "rat \<Rightarrow> int" where
  "ilog2 q =
     (let (a, b) = quotient_of q; k = bitlen a - bitlen b
      in if (if 0 \<le> k then 2 ^ nat k \<le> q else 1 \<le> q * 2 ^ nat (- k)) then k else k - 1)"

definition scale2 :: "rat \<Rightarrow> int \<Rightarrow> rat" where
  "scale2 q e = (if 0 \<le> e then q * 2 ^ nat e else q / 2 ^ nat (- e))"

definition roundHalfEven :: "rat \<Rightarrow> int" where
  "roundHalfEven s =
     (let f = \<lfloor>s\<rfloor>; d = s - of_int f
      in if d < 1 / 2 then f else if 1 / 2 < d then f + 1
         else if even f then f else f + 1)"

definition fl :: "rat \<Rightarrow> rat" where
  "fl q =
     (if q \<le> 0 then 0
      else let e = ilog2 q - 52 in scale2 (of_int (roundHalfEven (scale2 q (- e)))) e)"

definition jsDiv :: "rat \<Rightarrow> rat \<Rightarrow> rat" where
  "jsDiv a b = fl (a / b)"

definition jsMul :: "rat \<Rightarrow> rat \<Rightarrow> rat" where
  "jsMul a b = fl (a * b)"

text \<open>Decimal digits of a natural number.\<close>

fun digits :: "nat \<Rightarrow> string" where
  "digits n =
     (if n < 10 then [char_of (48 + n)] else digits (n div 10) @ [char_of (48 + n mod 10)])"

text \<open>
  \<open>Number.prototype.toFixed\<close> with 0 or 1 fraction digits on a non-negative number
  below \<open>10^21\<close>: the integer \<open>n\<close> nearest to \<open>x * 10^f\<close>, the larger one on a tie,
  written with a decimal point before its last \<open>f\<close> digits.
\<close>

definition toFixed :: "nat \<Rightarrow> rat \<Rightarrow> string" where
  "toFixed f x =
     (let n = nat \<lfloor>x * 10 ^ f + 1 / 2\<rfloor>
      in if f = 0 then digits n
         else digits (n div 10 ^ f) @ ''.'' @ drop 1 (digits (10 ^ f + n mod 10 ^ f)))"

subsection \<open>Classification\<close>

text \<open>\<open>Object.keys(run.results)\<close> and \<open>Object.values(run.results)\<close>.\<close>

definition objectKeys :: "(string \<times> TestResult) list \<Rightarrow> string list" where
  "objectKeys rs = remdups (map fst rs)"

definition objectValues :: "(string \<times> TestResult) list \<Rightarrow> TestResult list" where
  "objectValues rs = concat (map (\<lambda>k. case map_of rs k of None \<Rightarrow> [] | Some v \<Rightarrow> [v])
                               (objectKeys rs))"

definition totalCount :: "TestRun \<Rightarrow> nat" where
  "totalCount rn = length (objectKeys (run_results rn))"

definition passedCount :: "TestRun \<Rightarrow> nat" where
  "passedCount rn =
     length (filter (\<lambda>e. status e = Declared PASSED) (objectValues (run_results rn)))"

definition failCount :: "TestRun \<Rightarrow> nat" where
  "failCount rn =
     length (filter (\<lambda>e. status e = Declared FAILED) (objectValues (run_results rn)))"

text \<open>\<open>total > 0 ? (passed / total) * 100 : 0\<close>, in doubles.\<close>

definition passRate :: "nat \<Rightarrow> nat \<Rightarrow> rat" where
  "passRate passed tot = (if 0 < tot then jsMul (jsDiv (of_nat passed) (of_nat tot)) 100 else 0)"

definition isSuccess :: "nat \<Rightarrow> nat \<Rightarrow> bool" where
  "isSuccess passed tot \<longleftrightarrow> 90 \<le> passRate passed tot"

text \<open>\<open>passRate % 1 === 0 ? passRate.toFixed(0) : passRate.toFixed(1)\<close>.\<close>

definition formattedPassRate :: "nat \<Rightarrow> nat \<Rightarrow> string" where
  "formattedPassRate passed tot =
     (let x = passRate passed tot
      in if x - of_int \<lfloor>x\<rfloor> = 0 then toFixed 0 x else toFixed 1 x)"

text \<open>
  The classification part of \<open>handleRunComplete\<close>: the pass rate, the verdict on the
  run, the displayed percentage and the number of failed cases that go into the
  notification.
\<close>

definition handleRunComplete :: "TestRun \<Rightarrow> rat \<times> bool \<times> string \<times> nat" where
  "handleRunComplete rn =
     (passRate (passedCount rn) (totalCount rn),
      isSuccess (passedCount rn) (totalCount rn),
      formattedPassRate (passedCount rn) (totalCount rn),
      failCount rn)"

section \<open>Fixtures\<close>

text \<open>Concrete users, suites and states on which the theorems below are instantiated.\<close>

definition fx_admin :: User where
  "fx_admin = \<lparr> user_id = ''admin_1'', user_name = ''Root'',
                user_email = ''administrator@autotest.ai'', avatar = ''#'' \<rparr>"

definition fx_bear :: User where
  "fx_bear = \<lparr> user_id = ''u1'', user_name = ''Bear'', user_email = ''bear@autotest.ai'',
               avatar = ''b'' \<rparr>"



definition fx_case :: "string \<Rightarrow> string \<Rightarrow> TestCase" where
  "fx_case i t = \<lparr> case_id = i, title = t, case_description = None, steps = [],
                   priority = High \<rparr>"

definition fx_suite :: "string \<Rightarrow> (string \<times> Role) list option \<Rightarrow> TestSuite" where
  "fx_suite i ps =
     \<lparr> suite_id = i, suite_name = ''Auth'', suite_description = ''login'',
       createdAt = ''2024-01-01T00:00:00.000Z'',
       cases = [fx_case ''c1'' ''Valid login'', fx_case ''c2'' ''Wrong password''],
       permissions = ps, targetConfig = None \<rparr>"

definition fx_suites :: "TestSuite list" where
  "fx_suites = [fx_suite ''1'' (Some [(''u1'', ADMIN), (''u2'', OBSERVER)]), fx_suite ''2'' None]"

definition fx_manager :: "TestSuite list \<Rightarrow> string option \<Rightarrow> SuiteManager" where
  "fx_manager ss a =
     \<lparr> suites = ss, activeSuiteId = a, isGenerating = False, prompt = ''login form'',
       showPromptModal = False, importMode = False, appType_st = WEB, appContextValue = [],
       testEmail_st = [], showRunModal = False, runAppType = WEB, runAddress = ''http://x'',
       runEmail = [], runMode = AUTOMATED, runAssets = [], permUserToAdd = ''u2'',
       permRoleToAdd = MEMBER, availableSheets = [], currentFile = None, genOpRef = 0 \<rparr>"

definition fx_run_suite :: "ExecutionMode \<Rightarrow> TestSuite" where
  "fx_run_suite m =
     \<lparr> suite_id = ''1'', suite_name = ''Auth'', suite_description = ''login'',
       createdAt = ''2024-01-01T00:00:00.000Z'',
       cases = [fx_case ''c1'' ''Valid login'', fx_case ''c2'' ''Wrong password''],
       permissions = Some [(''u1'', ADMIN)],
       targetConfig = Some \<lparr> appType = WEB, appAddress = ''http://x'', testEmail = Some [],
                              executionMode = Some m, mockAssets = Some [] \<rparr> \<rparr>"

definition fx_mounted :: "ExecutionMode \<Rightarrow> TestRunner" where
  "fx_mounted m = the (mount (fx_run_suite m) ''t0'')"

definition fx_passed :: SimResult where
  "fx_passed = \<lparr> sim_status = Declared PASSED, sim_notes = NoteText ''done'' \<rparr>"




text \<open>The same run when the log of the first case is a truthy value that is no string.\<close>

definition fx_non_text :: TestRunner where
  "fx_non_text =
     the (run (fx_run_suite AUTOMATED)
            [SimSettles 0 (simulateTestExecution (Parsed (Declared PASSED) NoteOther)) ''t1'',
             AutoTimerFires, SimSettles 0 (Inr fx_passed) ''t2'']
            (fx_mounted AUTOMATED))"

definition fx_run20 :: TestRun where
  "fx_run20 =
     \<lparr> run_id = ''r1'', run_suiteId = ''1'', run_suiteName = ''Auth'',
       startTime = ''t0'', endTime = Some ''t9'', run_status = COMPLETED,
       run_results =
         map (\<lambda>i. (digits i, \<lparr> caseId = Some (digits i),
                                status = Declared (if i < 11 then PASSED else FAILED),
                                result_notes = NoNotes, timestamp = ''t1'' \<rparr>)) [0..<20] \<rparr>"

definition fx_gen_st0 :: SuiteManager where
  "fx_gen_st0 = fx_manager fx_suites (Some ''1'')"

definition fx_gen_st1 :: SuiteManager where
  "fx_gen_st1 = fst (handleGenerateCases_start fx_bear 1000 fx_gen_st0)"

definition fx_gen_req :: GenRequest where
  "fx_gen_req = the (snd (handleGenerateCases_start fx_bear 1000 fx_gen_st0))"

definition fx_gen_reopened :: SuiteManager where
  "fx_gen_reopened =
     setPrompt ''password reset'' (openGenerateModal (handleCancelGeneration fx_gen_st1))"

definition fx_gen_st2 :: "int \<Rightarrow> SuiteManager" where
  "fx_gen_st2 now = fst (handleGenerateCases_start fx_bear now fx_gen_reopened)"

section \<open>Role resolution\<close>

text \<open>
  C1. A user whose email is the super-admin address resolves to \<open>ADMIN\<close> on every
  suite, whatever the suite's permission mapping holds (absent, empty, or an entry
  giving that user a lower role).
\<close>

theorem getUserRole_super_admin:
  assumes "user_email u = SUPER_ADMIN_EMAIL"
  shows "getUserRole u s = HasRole ADMIN"
  using assms by (simp add: getUserRole_def isGlobalAdmin_def)

theorem getUserRole_super_admin_witness:
  "user_email fx_admin = SUPER_ADMIN_EMAIL \<and>
   getUserRole fx_admin (fx_suite ''1'' (Some [(''admin_1'', OBSERVER)])) = HasRole ADMIN \<and>
   getUserRole fx_admin (fx_suite ''1'' None) = HasRole ADMIN"
  using getUserRole_super_admin [of fx_admin "fx_suite ''1'' (Some [(''admin_1'', OBSERVER)])"]
        getUserRole_super_admin [of fx_admin "fx_suite ''1'' None"]
  by (simp add: fx_admin_def SUPER_ADMIN_EMAIL_def)

text \<open>
  What holds of role resolution without an entry: the role is \<open>NONE\<close> and the suite is
  hidden when the mapping is absent, or when it has no entry for the user's id and that
  id is not a name inherited from \<open>Object.prototype\<close>.
\<close>

lemma no_entry_is_NONE_and_hidden:
  assumes "user_email u \<noteq> SUPER_ADMIN_EMAIL"
    and "permissions s = None \<or>
         (\<exists>ps. permissions s = Some ps \<and> map_of ps (user_id u) = None \<and>
               user_id u \<notin> set objectPrototypeNames)"
  shows "getUserRole u s = NONE \<and> s \<notin> set (visibleSuites u ss) \<and>
         (\<forall>t. t \<in> set (visibleSuites u ss) \<longleftrightarrow> t \<in> set ss \<and> getUserRole u t \<noteq> NONE)"
proof -
  have r: "getUserRole u s = NONE"
    using assms by (auto simp: getUserRole_def isGlobalAdmin_def)
  then show ?thesis
    by (simp add: visibleSuites_def)
qed


section \<open>Suite creation and the permission store\<close>

text \<open>
  C9. Suite creation appends one suite whose permission mapping has an entry for the
  creating user with role \<open>ADMIN\<close>; the creator resolves to \<open>ADMIN\<close> on it.
\<close>

theorem createSuite_seeds_creator:
  "\<exists>n ps. suites (createSuite u uuid now st) = suites st @ [n] \<and>
           permissions n = Some ps \<and> map_of ps (user_id u) = Some ADMIN \<and>
           getUserRole u n = HasRole ADMIN"
  by (simp add: createSuite_def Let_def getUserRole_def)

theorem createSuite_seeds_creator_witness:
  "\<exists>n ps. suites (createSuite fx_bear ''id-7'' ''2024-01-01'' (fx_manager fx_suites None))
             = fx_suites @ [n] \<and>
           permissions n = Some ps \<and> map_of ps ''u1'' = Some ADMIN \<and>
           getUserRole fx_bear n = HasRole ADMIN"
  using createSuite_seeds_creator [of fx_bear "''id-7''" "''2024-01-01''" "fx_manager fx_suites None"]
  by (simp add: fx_bear_def fx_manager_def)

lemma fx_active:
  "activeSuite (fx_manager fx_suites (Some ''1''))
     = Some (fx_suite ''1'' (Some [(''u1'', ADMIN), (''u2'', OBSERVER)]))"
  by (simp add: activeSuite_def fx_manager_def fx_suites_def fx_suite_def)

text \<open>
  C3. With a suite active: when the acting user, not the super-admin, removes their own
  entry, exactly one yes/no confirmation is shown; if it is declined the whole state
  (the suites collection with it) is unchanged; if it is accepted the entry is removed
  from the active suite, whose mapping then has no entry for that user, and the active
  suite selection is cleared. Removing another user's entry, or the super-admin
  removing their own, shows no confirmation, removes the entry and keeps the selection.
\<close>

theorem handleRemovePermission_self_confirmation:
  assumes "activeSuite st = Some a"
  shows "(userId = user_id u \<and> \<not> isGlobalAdmin u \<longrightarrow>
            fst (handleRemovePermission u confirm userId st) = [ConfirmSelfRemoval] \<and>
            (\<not> confirm ConfirmSelfRemoval \<longrightarrow>
               snd (handleRemovePermission u confirm userId st) = st) \<and>
            (confirm ConfirmSelfRemoval \<longrightarrow>
               activeSuiteId (snd (handleRemovePermission u confirm userId st)) = None \<and>
               (\<forall>s \<in> set (suites (snd (handleRemovePermission u confirm userId st))).
                  suite_id s = suite_id a \<longrightarrow>
                  permissions s = Some (AList.delete userId (spreadPermissions a)) \<and>
                  map_of (AList.delete userId (spreadPermissions a)) userId = None))) \<and>
         (\<not> (userId = user_id u \<and> \<not> isGlobalAdmin u) \<longrightarrow>
            fst (handleRemovePermission u confirm userId st) = [] \<and>
            activeSuiteId (snd (handleRemovePermission u confirm userId st)) = activeSuiteId st \<and>
            (\<forall>s \<in> set (suites (snd (handleRemovePermission u confirm userId st))).
                  suite_id s = suite_id a \<longrightarrow>
                  permissions s = Some (AList.delete userId (spreadPermissions a)) \<and>
                  map_of (AList.delete userId (spreadPermissions a)) userId = None))"
  using assms
  by (auto simp: handleRemovePermission_def Let_def AList.delete_conv')

theorem handleRemovePermission_self_confirmation_witness:
  "activeSuite (fx_manager fx_suites (Some ''1''))
     = Some (fx_suite ''1'' (Some [(''u1'', ADMIN), (''u2'', OBSERVER)])) \<and>
   fst (handleRemovePermission fx_bear (\<lambda>d. False) ''u1'' (fx_manager fx_suites (Some ''1'')))
     = [ConfirmSelfRemoval] \<and>
   snd (handleRemovePermission fx_bear (\<lambda>d. False) ''u1'' (fx_manager fx_suites (Some ''1'')))
     = fx_manager fx_suites (Some ''1'') \<and>
   activeSuiteId (snd (handleRemovePermission fx_bear (\<lambda>d. True) ''u1''
                         (fx_manager fx_suites (Some ''1'')))) = None \<and>
   map (\<lambda>s. (suite_id s, permissions s))
     (suites (snd (handleRemovePermission fx_bear (\<lambda>d. True) ''u1''
                     (fx_manager fx_suites (Some ''1'')))))
     = [(''1'', Some [(''u2'', OBSERVER)]), (''2'', None)] \<and>
   fst (handleRemovePermission fx_bear (\<lambda>d. True) ''u2'' (fx_manager fx_suites (Some ''1''))) = [] \<and>
   fst (handleRemovePermission fx_admin (\<lambda>d. True) ''admin_1''
          (fx_manager fx_suites (Some ''1''))) = []"
proof -
  have m: "map (\<lambda>s. (suite_id s, permissions s))
     (suites (snd (handleRemovePermission fx_bear (\<lambda>d. True) ''u1''
                     (fx_manager fx_suites (Some ''1'')))))
     = [(''1'', Some [(''u2'', OBSERVER)]), (''2'', None)]"
    by code_simp
  from handleRemovePermission_self_confirmation [OF fx_active, of "''u1''" fx_bear "\<lambda>d. False"]
       handleRemovePermission_self_confirmation [OF fx_active, of "''u1''" fx_bear "\<lambda>d. True"]
       handleRemovePermission_self_confirmation [OF fx_active, of "''u2''" fx_bear "\<lambda>d. True"]
       handleRemovePermission_self_confirmation [OF fx_active, of "''admin_1''" fx_admin "\<lambda>d. True"]
       fx_active m
  show ?thesis
    by (simp add: fx_bear_def fx_admin_def isGlobalAdmin_def SUPER_ADMIN_EMAIL_def)
qed

text \<open>
  C10. Adding, changing and removing a permission, and freezing the run configuration,
  keep the collection's length and the suite id at every position, and leave every
  suite whose id differs from the active suite's id as it was; with no active suite the
  collection is unchanged.
\<close>

theorem mutations_frame:
  assumes "st' \<in> {handleAddPermission st, snd (handleRemovePermission u confirm userId st),
                  handleChangePermission userId newRole st, fst (confirmRun st)}"
  shows "length (suites st') = length (suites st) \<and>
         (\<forall>i<length (suites st).
            suite_id (suites st' ! i) = suite_id (suites st ! i) \<and>
            (\<forall>a. activeSuite st = Some a \<and> suite_id (suites st ! i) \<noteq> suite_id a
                  \<longrightarrow> suites st' ! i = suites st ! i)) \<and>
         (activeSuite st = None \<longrightarrow> suites st' = suites st)"
proof (cases "activeSuite st")
  case None
  then have "suites st' = suites st"
    using assms
    by (auto simp: handleAddPermission_def handleRemovePermission_def
          handleChangePermission_def confirmRun_def)
  with None show ?thesis by simp
next
  case (Some a)
  then show ?thesis
    using assms
    by (auto simp: handleAddPermission_def handleRemovePermission_def
          handleChangePermission_def confirmRun_def Let_def)
qed

theorem mutations_frame_witness:
  "handleChangePermission ''u2'' ADMIN (fx_manager fx_suites (Some ''1''))
     \<in> {handleAddPermission (fx_manager fx_suites (Some ''1'')),
         snd (handleRemovePermission fx_bear (\<lambda>d. True) ''u2'' (fx_manager fx_suites (Some ''1''))),
         handleChangePermission ''u2'' ADMIN (fx_manager fx_suites (Some ''1'')),
         fst (confirmRun (fx_manager fx_suites (Some ''1'')))} \<and>
   length (suites (handleChangePermission ''u2'' ADMIN (fx_manager fx_suites (Some ''1'')))) = 2 \<and>
   suites (handleChangePermission ''u2'' ADMIN (fx_manager fx_suites (Some ''1''))) ! 1
     = fx_suite ''2'' None \<and>
   permissions (suites (handleChangePermission ''u2'' ADMIN (fx_manager fx_suites (Some ''1''))) ! 0)
     = Some [(''u1'', ADMIN), (''u2'', ADMIN)] \<and>
   activeSuite (fx_manager fx_suites None) = None \<and>
   suites (fst (confirmRun (fx_manager fx_suites None))) = fx_suites"
  using mutations_frame [of "handleChangePermission ''u2'' ADMIN (fx_manager fx_suites (Some ''1''))"
          "fx_manager fx_suites (Some ''1'')" fx_bear "\<lambda>d. True" "''u2''" ADMIN]
        mutations_frame [of "fst (confirmRun (fx_manager fx_suites None))"
          "fx_manager fx_suites None" fx_bear "\<lambda>d. True" "''u2''" ADMIN]
  by (simp add: handleChangePermission_def confirmRun_def activeSuite_def fx_manager_def
        fx_suites_def fx_suite_def spreadPermissions_def)

section \<open>The test run state machine\<close>

lemma statusOf_update:
  "statusOf (AList.update k e rs) k' = (if k' = k then Some (status e) else statusOf rs k')"
  by (simp add: statusOf_def AList.update_conv')



lemma autoEffect_establishes:
  assumes "isAutomatedMode suite" "currentCaseIndex r < length (cases suite)"
    "advanceTimers r = 0" "inflight r = []"
  shows "\<exists>r'. autoEffect suite r = Some r' \<and> autoInv suite r' \<and> results r' = results r \<and>
              currentCaseIndex r' = currentCaseIndex r \<and> simulatedLogs r' = simulatedLogs r"
  using assms
  by (auto simp: autoEffect_def Let_def currentCase_def autoInv_def isLastCase_def)

lemma mount_autoInv:
  assumes "isAutomatedMode suite" "mount suite now = Some r"
  shows "autoInv suite r \<and> results r = initialResults (cases suite) now"
proof -
  let ?r2 = "\<lparr> currentCaseIndex = 0, results = initialResults (cases suite) now, isAutoRunning = True,
                 simulatedLogs = [], autoRunRef = True, advanceTimers = 0,
                 autoTimer = False, inflight = [] \<rparr>"
  from assms have ne: "cases suite \<noteq> []" and eq: "autoEffect suite ?r2 = Some r"
    by (auto simp: mount_def Let_def currentCase_def rerender_def split: if_splits)
  from autoEffect_establishes[of suite ?r2] assms(1) ne eq show ?thesis by auto
qed


lemma writeStatus_auto:
  assumes "isAutomatedMode suite"
  shows "writeStatus suite cl st n now r =
           r\<lparr> results := AList.update (case_id (cl_case cl))
                  \<lparr> caseId = (case map_of (cl_results cl) (case_id (cl_case cl)) of
                                None \<Rightarrow> None | Some e \<Rightarrow> caseId e),
                    status = st, result_notes = n, timestamp = now \<rparr> (cl_results cl) \<rparr>"
  using assms by (simp add: writeStatus_def Let_def)

lemma settle_auto:
  assumes "isAutomatedMode suite"
  shows "\<exists>e. results (runSimulation_settle suite cl res now r)
               = AList.update (case_id (cl_case cl)) e (cl_results cl) \<and>
             currentCaseIndex (runSimulation_settle suite cl res now r) = currentCaseIndex r \<and>
             isAutoRunning (runSimulation_settle suite cl res now r) = isAutoRunning r \<and>
             advanceTimers (runSimulation_settle suite cl res now r) = advanceTimers r \<and>
             autoTimer (runSimulation_settle suite cl res now r) = autoTimer r \<and>
             inflight (runSimulation_settle suite cl res now r) = inflight r"
  using assms
  by (auto simp: runSimulation_settle_def handleStatus_def writeStatus_auto Let_def
           split: sum.splits option.splits)

lemma step_autoInv:
  assumes am: "isAutomatedMode suite" and inv: "autoInv suite r"
  shows "\<exists>r'. step suite ev r = Some r' \<and> autoInv suite r' \<and>
              (\<forall>cid s. statusOf (results r) cid = Some s \<and> s \<noteq> Declared IDLE
                         \<longrightarrow> statusOf (results r') cid = Some s)"
proof (cases ev)
  case (Verdict st now)
  with am inv show ?thesis by (simp add: step_def)
next
  case AdvanceTimerFires
  with inv show ?thesis by (simp add: step_def autoInv_def)
next
  case PrevClick
  show ?thesis
  proof (cases "currentCaseIndex r = 0 \<or> isAutoRunning r")
    case True
    with PrevClick inv show ?thesis by (simp add: step_def)
  next
    case False
    let ?r1 = "r\<lparr> currentCaseIndex := currentCaseIndex r - 1 \<rparr>"
    from False inv have h: "currentCaseIndex ?r1 < length (cases suite)" "advanceTimers ?r1 = 0"
      "inflight ?r1 = []"
      by (auto simp: autoInv_def)
    from autoEffect_establishes[OF am h] h False PrevClick show ?thesis
      by (auto simp: step_def rerender_def currentCase_def)
  qed
next
  case NextClick
  show ?thesis
  proof (cases "isLastCase suite r \<or> isAutoRunning r")
    case True
    with NextClick inv show ?thesis by (simp add: step_def)
  next
    case False
    let ?r1 = "r\<lparr> currentCaseIndex := min (length (cases suite) - 1) (currentCaseIndex r + 1) \<rparr>"
    from False inv have h: "currentCaseIndex ?r1 < length (cases suite)" "advanceTimers ?r1 = 0"
      "inflight ?r1 = []"
      by (auto simp: autoInv_def)
    from autoEffect_establishes[OF am h] h False NextClick show ?thesis
      by (auto simp: step_def rerender_def currentCase_def)
  qed
next
  case (SelectCase idx)
  with am inv show ?thesis by (simp add: step_def)
next
  case AutoTimerFires
  show ?thesis
  proof (cases "autoTimer r")
    case False
    with AutoTimerFires inv show ?thesis by (simp add: step_def)
  next
    case True
    let ?r1 = "r\<lparr> currentCaseIndex := currentCaseIndex r + 1 \<rparr>"
    from True inv have h: "currentCaseIndex ?r1 < length (cases suite)" "advanceTimers ?r1 = 0"
      "inflight ?r1 = []"
      by (auto simp: autoInv_def)
    from autoEffect_establishes[OF am h] h True AutoTimerFires show ?thesis
      by (auto simp: step_def rerender_def currentCase_def)
  qed
next
  case (SimSettles k res now)
  show ?thesis
  proof (cases "k < length (inflight r)")
    case False
    with SimSettles inv show ?thesis by (simp add: step_def)
  next
    case True
    let ?cl = "\<lparr> cl_case = cases suite ! currentCaseIndex r, cl_results = results r,
                  cl_isLastCase = isLastCase suite r \<rparr>"
    from True inv have fl: "inflight r = [?cl]" and k0: "k = 0"
      and idle: "statusOf (results r) (case_id (cases suite ! currentCaseIndex r)) = Some (Declared IDLE)"
      by (auto simp: autoInv_def)
    let ?r0 = "r\<lparr> inflight := [] \<rparr>"
    let ?r1 = "runSimulation_settle suite ?cl res now ?r0"
    from settle_auto[OF am, of ?cl res now ?r0] obtain e where
      res1: "results ?r1 = AList.update (case_id (cases suite ! currentCaseIndex r)) e (results r)"
      and oth: "currentCaseIndex ?r1 = currentCaseIndex r" "advanceTimers ?r1 = advanceTimers r"
        "inflight ?r1 = []"
      by auto
    from oth inv have "currentCaseIndex ?r1 < length (cases suite)" "advanceTimers ?r1 = 0"
      "inflight ?r1 = []"
      by (auto simp: autoInv_def)
    from autoEffect_establishes[OF am this] obtain r' where
      r': "autoEffect suite ?r1 = Some r'" "autoInv suite r'" "results r' = results ?r1"
      by auto
    have st: "step suite ev r = Some r'"
      using SimSettles True fl k0 r'(1) oth(1) inv
      by (simp add: step_def rerender_def currentCase_def autoInv_def)
    have "\<forall>cid s. statusOf (results r) cid = Some s \<and> s \<noteq> Declared IDLE
                   \<longrightarrow> statusOf (results r') cid = Some s"
      using idle by (auto simp: r'(3) res1 statusOf_update)
    with st r'(2) show ?thesis by blast
  qed
qed

lemma run_autoInv:
  assumes "isAutomatedMode suite" "autoInv suite r"
  shows "\<exists>r'. run suite evs r = Some r' \<and> autoInv suite r' \<and>
              (\<forall>cid s. statusOf (results r) cid = Some s \<and> s \<noteq> Declared IDLE
                         \<longrightarrow> statusOf (results r') cid = Some s)"
  using assms(2)
proof (induction evs arbitrary: r)
  case Nil
  then show ?case by simp
next
  case (Cons ev evs)
  from step_autoInv[OF assms(1) Cons.prems, of ev] obtain r1 where
    r1: "step suite ev r = Some r1" "autoInv suite r1"
      "\<forall>cid s. statusOf (results r) cid = Some s \<and> s \<noteq> Declared IDLE \<longrightarrow> statusOf (results r1) cid = Some s"
    by blast
  from Cons.IH[OF r1(2)] obtain r' where
    r': "run suite evs r1 = Some r'" "autoInv suite r'"
      "\<forall>cid s. statusOf (results r1) cid = Some s \<and> s \<noteq> Declared IDLE \<longrightarrow> statusOf (results r') cid = Some s"
    by blast
  from r1 r' show ?case by auto
qed






lemma fx_auto [simp]: "isAutomatedMode (fx_run_suite AUTOMATED)"
  by (simp add: isAutomatedMode_def fx_run_suite_def)



lemma simulateTestExecution_never_rejects:
  "\<exists>sr. simulateTestExecution out = Inr sr"
  by (cases out) (simp_all add: simulateTestExecution_def simulate_try_def)

lemma simulate_try_throws:
  "(\<exists>x. simulate_try out = Inl x) \<longleftrightarrow> out \<in> {CallFails, NoText, ParseThrows, ParsedNull}"
  by (cases out) (simp_all add: simulate_try_def)

lemma simulateTestExecution_parsed:
  "simulateTestExecution (Parsed s l) = Inr \<lparr> sim_status = s, sim_notes = l \<rparr>"
  by (simp add: simulateTestExecution_def simulate_try_def)

lemma simulateTestExecution_fallback:
  assumes "simulate_try out = Inl x"
  shows "simulateTestExecution out
           = Inr \<lparr> sim_status = Declared SKIPPED,
                  sim_notes = NoteText SIMULATION_FAILED_NOTE \<rparr>"
  using assms by (simp add: simulateTestExecution_def)

lemma SIMULATION_FAILED_NOTE_nonempty: "SIMULATION_FAILED_NOTE \<noteq> []"
  by (simp add: SIMULATION_FAILED_NOTE_def)

lemma settle_failure:
  assumes am: "isAutomatedMode suite"
    and f: "res = Inl e \<or> res = Inr \<lparr> sim_status = Declared SKIPPED,
                  sim_notes = NoteText SIMULATION_FAILED_NOTE \<rparr>"
    and ex: "map_of (cl_results cl) (case_id (cl_case cl)) = Some old"
  shows "results (runSimulation_settle suite cl res now r)
           = AList.update (case_id (cl_case cl))
               \<lparr> caseId = caseId old, status = Declared SKIPPED,
                 result_notes = NoteText (case res of Inl x \<Rightarrow> AUTOMATION_FAILED_NOTE
                             | Inr sr \<Rightarrow> SIMULATION_FAILED_NOTE), timestamp = now \<rparr> (cl_results cl)"
  using f ex
  by (auto simp: runSimulation_settle_def handleStatus_def resolveNotes_def truthyNotes_def
        writeStatus_auto[OF am] SIMULATION_FAILED_NOTE_nonempty Let_def)

lemma simulation_failure_step:
  assumes am: "isAutomatedMode suite" and inv: "autoInv suite r" and fl: "inflight r \<noteq> []"
    and f: "res = Inl e \<or> res = Inr \<lparr> sim_status = Declared SKIPPED,
                  sim_notes = NoteText SIMULATION_FAILED_NOTE \<rparr>"
  shows "\<exists>r' entry.
           step suite (SimSettles 0 res now) r = Some r' \<and> autoInv suite r' \<and>
           map_of (results r') (case_id (cases suite ! currentCaseIndex r)) = Some entry \<and>
           status entry = Declared SKIPPED \<and> result_notes entry = NoteText (case res of Inl x \<Rightarrow> AUTOMATION_FAILED_NOTE
                             | Inr sr \<Rightarrow> SIMULATION_FAILED_NOTE) \<and>
           currentCaseIndex r' = currentCaseIndex r \<and> inflight r' = [] \<and>
           (if isLastCase suite r then \<not> isAutoRunning r' \<and> \<not> autoTimer r'
            else isAutoRunning r' \<and> autoTimer r')"
proof -
  define c where "c = cases suite ! currentCaseIndex r"
  define cl where "cl = \<lparr> cl_case = c, cl_results = results r,
                           cl_isLastCase = isLastCase suite r \<rparr>"
  from inv fl have i: "inflight r = [cl]" "isAutoRunning r"
    "statusOf (results r) (case_id c) = Some (Declared IDLE)" "currentCaseIndex r < length (cases suite)"
    "advanceTimers r = 0"
    by (auto simp: autoInv_def cl_def c_def)
  from i(3) obtain old where old: "map_of (results r) (case_id c) = Some old"
    by (auto simp: statusOf_def)
  define r1 where "r1 = runSimulation_settle suite cl res now (r\<lparr> inflight := [] \<rparr>)"
  define entry where "entry = \<lparr> caseId = caseId old, status = Declared SKIPPED,
                  result_notes = NoteText (case res of Inl x \<Rightarrow> AUTOMATION_FAILED_NOTE
                             | Inr sr \<Rightarrow> SIMULATION_FAILED_NOTE), timestamp = now \<rparr>"
  have res1: "results r1 = AList.update (case_id c) entry (results r)"
    using settle_failure[OF am f, of cl old now "r\<lparr> inflight := [] \<rparr>"] old
    by (simp add: r1_def cl_def entry_def)
  from settle_auto[OF am, of cl res now "r\<lparr> inflight := [] \<rparr>"] have oth:
    "currentCaseIndex r1 = currentCaseIndex r" "isAutoRunning r1 = isAutoRunning r"
    "advanceTimers r1 = advanceTimers r" "inflight r1 = []"
    by (auto simp: r1_def)
  have stc: "statusOf (results r1) (case_id c) = Some (Declared SKIPPED)"
    by (simp add: res1 statusOf_update entry_def)
  define r' where "r' = (if isLastCase suite r then r1\<lparr> autoTimer := False, isAutoRunning := False \<rparr>
                         else r1\<lparr> autoTimer := True \<rparr>)"
  have cc: "currentCase suite (r1\<lparr> autoTimer := False \<rparr>) = Some c"
    using i(4) oth(1) by (simp add: currentCase_def c_def)
  have last: "isLastCase suite (r1\<lparr> autoTimer := False \<rparr>) = isLastCase suite r"
    using oth(1) by (simp add: isLastCase_def)
  have ae: "autoEffect suite r1 = Some r'"
    unfolding autoEffect_def Let_def
    using am i(2) oth(2) stc cc last by (simp add: r'_def)
  have st: "step suite (SimSettles 0 res now) r = Some r'"
    using i(1,4) ae oth(1) by (simp add: step_def rerender_def currentCase_def r1_def)
  from autoEffect_establishes[OF am, of r1] i(4,5) oth ae have inv': "autoInv suite r'"
    by auto
  have "map_of (results r') (case_id c) = Some entry"
    by (simp add: r'_def res1 AList.update_conv')
  moreover have "status entry = Declared SKIPPED" "result_notes entry = NoteText (case res of Inl x \<Rightarrow> AUTOMATION_FAILED_NOTE
                             | Inr sr \<Rightarrow> SIMULATION_FAILED_NOTE)"
    by (simp_all add: entry_def)
  moreover have "currentCaseIndex r' = currentCaseIndex r" "inflight r' = []"
    by (simp_all add: r'_def oth)
  moreover have "if isLastCase suite r then \<not> isAutoRunning r' \<and> \<not> autoTimer r'
                 else isAutoRunning r' \<and> autoTimer r'"
    using i(2) by (simp add: r'_def oth)
  ultimately show ?thesis using st inv' unfolding c_def by blast
qed

lemma auto_timer_advances:
  assumes am: "isAutomatedMode suite" and inv: "autoInv suite r" and t: "autoTimer r"
  shows "\<exists>r'. step suite AutoTimerFires r = Some r' \<and>
              currentCaseIndex r' = Suc (currentCaseIndex r) \<and> results r' = results r \<and>
              (statusOf (results r) (case_id (cases suite ! Suc (currentCaseIndex r))) = Some (Declared IDLE)
                 \<longrightarrow> isAutoRunning r' \<and>
                     (\<exists>cl. inflight r' = [cl] \<and>
                           cl_case cl = cases suite ! Suc (currentCaseIndex r)))"
  using assms
  by (auto simp: step_def rerender_def currentCase_def autoEffect_def Let_def autoInv_def)


lemma fx_mount: "mount (fx_run_suite m) ''t0'' = Some (fx_mounted m)"
  unfolding fx_mounted_def by (cases m) (simp_all, code_simp+)


text \<open>
  C5. \<open>simulateTestExecution\<close> never rejects: whatever the remote call does, its promise
  is fulfilled. The call fails when the \<open>try\<close> block throws, which is when the call
  itself fails, the response has no text, the text does not parse or parses to
  \<open>null\<close>; the promise is then fulfilled with \<open>SKIPPED\<close> and the fixed note. (A text that
  parses to anything else is no failure and is passed on as it reads, be it \<open>{}\<close>.) In
  an automated run with a request in flight, a settlement that is a failure (a
  rejection, or that fallback) records the current case as \<open>SKIPPED\<close> with the fixed note
  of the path taken; the runner does not crash, and unless the case is the last the loop
  keeps running: the timer it arms moves the cursor to the next case and, that case being
  \<open>IDLE\<close>, a request for it is issued. On the last case the loop stops.
\<close>

theorem simulation_failure_is_skipped_and_run_continues:
  assumes "isAutomatedMode suite" "mount suite t0 = Some r0" "run suite evs r0 = Some r"
    and "inflight r \<noteq> []"
    and "simulate_try out = Inl x"
    and "res = Inl e \<or> res = simulateTestExecution out"
  shows "(\<exists>sr. simulateTestExecution out' = Inr sr) \<and>
         ((\<exists>y. simulate_try out' = Inl y)
            \<longleftrightarrow> out' \<in> {CallFails, NoText, ParseThrows, ParsedNull}) \<and>
         simulateTestExecution (Parsed s l) = Inr \<lparr> sim_status = s, sim_notes = l \<rparr> \<and>
         simulateTestExecution out
           = Inr \<lparr> sim_status = Declared SKIPPED,
                  sim_notes = NoteText SIMULATION_FAILED_NOTE \<rparr> \<and>
         (\<exists>r' entry.
            step suite (SimSettles 0 res now) r = Some r' \<and>
            map_of (results r') (case_id (cases suite ! currentCaseIndex r)) = Some entry \<and>
            status entry = Declared SKIPPED \<and>
            result_notes entry
              = NoteText (case res of Inl x \<Rightarrow> AUTOMATION_FAILED_NOTE
                      | Inr sr \<Rightarrow> SIMULATION_FAILED_NOTE) \<and>
            currentCaseIndex r' = currentCaseIndex r \<and>
            (if isLastCase suite r then \<not> isAutoRunning r'
             else isAutoRunning r' \<and>
                  (\<exists>r''. step suite AutoTimerFires r' = Some r'' \<and>
                         currentCaseIndex r'' = Suc (currentCaseIndex r) \<and>
                         results r'' = results r' \<and>
                         (statusOf (results r')
                            (case_id (cases suite ! Suc (currentCaseIndex r))) = Some (Declared IDLE)
                          \<longrightarrow> isAutoRunning r'' \<and>
                              (\<exists>cl. inflight r'' = [cl] \<and>
                                    cl_case cl = cases suite ! Suc (currentCaseIndex r))))))"
proof -
  have fb: "simulateTestExecution out
              = Inr \<lparr> sim_status = Declared SKIPPED,
                  sim_notes = NoteText SIMULATION_FAILED_NOTE \<rparr>"
    using assms(5) by (rule simulateTestExecution_fallback)
  from mount_autoInv[OF assms(1,2)] have "autoInv suite r0" by simp
  with run_autoInv[OF assms(1), of r0 evs] assms(3) have inv: "autoInv suite r" by auto
  from assms(6) fb have f: "res = Inl e \<or>
      res = Inr \<lparr> sim_status = Declared SKIPPED,
                  sim_notes = NoteText SIMULATION_FAILED_NOTE \<rparr>"
    by simp
  from simulation_failure_step[OF assms(1) inv assms(4) f, of now] obtain r' entry where
    r': "step suite (SimSettles 0 res now) r = Some r'" "autoInv suite r'"
      "map_of (results r') (case_id (cases suite ! currentCaseIndex r)) = Some entry"
      "status entry = Declared SKIPPED"
      "result_notes entry = NoteText (case res of Inl x \<Rightarrow> AUTOMATION_FAILED_NOTE
                                   | Inr sr \<Rightarrow> SIMULATION_FAILED_NOTE)"
      "currentCaseIndex r' = currentCaseIndex r"
      "if isLastCase suite r then \<not> isAutoRunning r' \<and> \<not> autoTimer r'
       else isAutoRunning r' \<and> autoTimer r'"
    by blast
  have cont: "if isLastCase suite r then \<not> isAutoRunning r'
             else isAutoRunning r' \<and>
                  (\<exists>r''. step suite AutoTimerFires r' = Some r'' \<and>
                         currentCaseIndex r'' = Suc (currentCaseIndex r) \<and>
                         results r'' = results r' \<and>
                         (statusOf (results r')
                            (case_id (cases suite ! Suc (currentCaseIndex r))) = Some (Declared IDLE)
                          \<longrightarrow> isAutoRunning r'' \<and>
                              (\<exists>cl. inflight r'' = [cl] \<and>
                                    cl_case cl = cases suite ! Suc (currentCaseIndex r))))"
  proof (cases "isLastCase suite r")
    case True
    with r'(7) show ?thesis by simp
  next
    case False
    with r'(7) have t: "autoTimer r'" "isAutoRunning r'" by simp_all
    from auto_timer_advances[OF assms(1) r'(2) t(1)] r'(6) False t(2) show ?thesis
      by auto
  qed
  from simulateTestExecution_never_rejects[of out'] simulate_try_throws[of out']
    simulateTestExecution_parsed[of s l] fb r'(1,3,4,5,6) cont
  show ?thesis
    by blast
qed


lemma fx_mounted_facts:
  "inflight (fx_mounted AUTOMATED) \<noteq> []"
  "currentCaseIndex (fx_mounted AUTOMATED) = 0"
  "\<not> isLastCase (fx_run_suite AUTOMATED) (fx_mounted AUTOMATED)"
  "case_id (cases (fx_run_suite AUTOMATED) ! 0) = ''c1''"
  unfolding fx_mounted_def by code_simp+

theorem simulation_failure_is_skipped_and_run_continues_witness:
  "isAutomatedMode (fx_run_suite AUTOMATED) \<and>
   mount (fx_run_suite AUTOMATED) ''t0'' = Some (fx_mounted AUTOMATED) \<and>
   run (fx_run_suite AUTOMATED) [] (fx_mounted AUTOMATED) = Some (fx_mounted AUTOMATED) \<and>
   inflight (fx_mounted AUTOMATED) \<noteq> [] \<and>
   simulateTestExecution CallFails
     = Inr \<lparr> sim_status = Declared SKIPPED,
                  sim_notes = NoteText SIMULATION_FAILED_NOTE \<rparr> \<and>
   (\<exists>r' entry.
      step (fx_run_suite AUTOMATED) (SimSettles 0 (simulateTestExecution CallFails) ''t1'')
        (fx_mounted AUTOMATED) = Some r' \<and>
      map_of (results r') ''c1'' = Some entry \<and> status entry = Declared SKIPPED \<and>
      result_notes entry = NoteText SIMULATION_FAILED_NOTE \<and> isAutoRunning r' \<and>
      (\<exists>r''. step (fx_run_suite AUTOMATED) AutoTimerFires r' = Some r'' \<and>
             currentCaseIndex r'' = 1))"
proof -
  have h1: "isAutomatedMode (fx_run_suite AUTOMATED)" by (rule fx_auto)
  have h3: "run (fx_run_suite AUTOMATED) [] (fx_mounted AUTOMATED) = Some (fx_mounted AUTOMATED)"
    by simp
  have h5: "simulate_try CallFails = Inl ApiError" by (simp add: simulate_try_def)
  have h6: "simulateTestExecution CallFails = Inl ApiError \<or>
            simulateTestExecution CallFails = simulateTestExecution CallFails" by simp
  have fb: "simulateTestExecution CallFails
              = Inr \<lparr> sim_status = Declared SKIPPED,
                  sim_notes = NoteText SIMULATION_FAILED_NOTE \<rparr>"
    by (simp add: simulateTestExecution_def simulate_try_def)
  from simulation_failure_is_skipped_and_run_continues
         [OF h1 fx_mount h3 fx_mounted_facts(1) h5 h6,
          where now = "''t1''" and out' = CallFails and s = NoStatus and l = NoNotes]
  show ?thesis
    using h1 fx_mount fx_mounted_facts by (auto simp: fb)
qed


section \<open>Export\<close>









lemma export_throws_on_non_text_note:
  "statusOf (results fx_non_text) ''c1'' = Some (Declared PASSED) \<and>
   map_option result_notes (map_of (results fx_non_text) ''c1'') = Some NoteOther \<and>
   fst (exportResults (fx_run_suite AUTOMATED) fx_non_text) = Inl TypeError"
  unfolding fx_non_text_def fx_mounted_def by code_simp






section \<open>Run classification\<close>

text \<open>The rounding on three known doubles: \<open>0.1\<close>, \<open>2/3\<close> and an integer.\<close>

lemma fl_known_values:
  "fl (1 / 10) = 3602879701896397 / 36028797018963968 \<and>
   fl (2 / 3) = 6004799503160661 / 9007199254740992 \<and>
   fl 55 = 55 \<and> jsDiv 11 20 = 2476979795053773 / 4503599627370496"
  by code_simp

text \<open>
  C7 on the code's arithmetic. A run of 20 cases of which 11 passed has the pass rate
  \<open>(11 / 20) * 100\<close>, which in doubles is \<open>55.00000000000001\<close> (the fraction below)
  and not \<open>55\<close>; its remainder modulo 1 is not zero, so the notification shows \<open>55.0\<close>
  where the whole percentage \<open>55\<close> is due. The four examples of the claim come out as it
  says.
\<close>

theorem run_classification_on_examples:
  "totalCount fx_run20 = 20 \<and> passedCount fx_run20 = 11 \<and>
   handleRunComplete fx_run20 = (7740561859543041 / 140737488355328, False, ''55.0'', 9) \<and>
   passRate 11 20 \<noteq> 55 \<and> formattedPassRate 11 20 = ''55.0'' \<and>
   passRate 0 0 = 0 \<and> \<not> isSuccess 0 0 \<and>
   passRate 9 10 = 90 \<and> isSuccess 9 10 \<and> formattedPassRate 9 10 = ''90'' \<and>
   passRate 8 10 = 80 \<and> \<not> isSuccess 8 10 \<and> formattedPassRate 8 10 = ''80'' \<and>
   formattedPassRate 2 3 = ''66.7'' \<and> \<not> isSuccess 2 3"
  by code_simp

section \<open>Operation tokens\<close>

lemma settle_dropped:
  "genOpRef st \<noteq> opId req \<Longrightarrow> handleGenerateCases_settle req res st = ([], st)"
  by (cases res) (simp_all add: handleGenerateCases_settle_def)

lemma start_token:
  assumes "handleGenerateCases_start u now st = (st1, Some req)"
  shows "opId req = now \<and> genOpRef st1 = now \<and> isGenerating st1 \<and> suites st1 = suites st"
  using assms
  by (auto simp: handleGenerateCases_start_def split: if_splits option.splits)

lemma cancelled_dropped:
  "opId req \<noteq> 0 \<Longrightarrow>
     handleGenerateCases_settle req res (handleCancelGeneration st)
       = ([], handleCancelGeneration st)"
  by (intro settle_dropped) (simp add: handleCancelGeneration_def)

lemma superseded_dropped:
  assumes "handleGenerateCases_start u now' st = (st2, Some req')" "opId req \<noteq> now'"
  shows "handleGenerateCases_settle req res st2 = ([], st2)"
  using start_token[OF assms(1)] assms(2) by (intro settle_dropped) simp

lemma settle_applied:
  assumes "genOpRef st = opId req"
  shows "\<not> isGenerating (snd (handleGenerateCases_settle req res st)) \<and>
         (\<forall>cs. res = Inr cs \<longrightarrow>
            map cases (suites (snd (handleGenerateCases_settle req res st)))
              = map (\<lambda>s. if suite_id s = req_activeSuiteId req then cases s @ cs else cases s)
                    (suites st)) \<and>
         (\<forall>e. res = Inl e \<longrightarrow>
            handleGenerateCases_settle req res st
              = ([AlertGenerationFailed], st\<lparr> isGenerating := False \<rparr>))"
  using assms
  by (cases res) (auto simp: handleGenerateCases_settle_def resetModalState_def Let_def)

text \<open>
  A simulation request carries no token. In an automated run at most one request is in
  flight, and it was issued from the present cursor and result mapping.
\<close>

lemma inflight_single:
  assumes "isAutomatedMode suite" "mount suite t0 = Some r0" "run suite evs r0 = Some r"
  shows "length (inflight r) \<le> 1 \<and>
         (\<forall>cl \<in> set (inflight r).
            cl_results cl = results r \<and> cl_case cl = cases suite ! currentCaseIndex r)"
proof -
  from mount_autoInv[OF assms(1,2)] have "autoInv suite r0" by simp
  with run_autoInv[OF assms(1), of r0 evs] assms(3) have "autoInv suite r" by auto
  then show ?thesis by (auto simp: autoInv_def)
qed

text \<open>
  C6 on the code's token. The token of a generation request is the reading of the clock
  at issuance, and the guard compares it with the reference. A request is issued with
  the clock at 1000 and cancelled (the reference is 0); the dialog is reopened, a prompt
  is entered and a second request is issued with the clock reading 1000 again. The
  response of the cancelled request, arriving now, finds the reference equal to its
  token: it is applied in the second request's state, its case is appended to the active
  suite and the busy flag of the second request is cleared. With the second clock
  reading 2000 the same response is dropped.
\<close>

theorem cancelled_generation_applied_on_equal_clock:
  "handleGenerateCases_start fx_bear 1000 fx_gen_st0 = (fx_gen_st1, Some fx_gen_req) \<and>
   opId fx_gen_req = 1000 \<and> genOpRef fx_gen_st1 = 1000 \<and>
   genOpRef (handleCancelGeneration fx_gen_st1) = 0 \<and>
   handleGenerateCases_settle fx_gen_req (Inr [fx_case ''g1'' ''Late case''])
       (handleCancelGeneration fx_gen_st1)
     = ([], handleCancelGeneration fx_gen_st1) \<and>
   fx_gen_reopened
     = setPrompt ''password reset'' (openGenerateModal (handleCancelGeneration fx_gen_st1)) \<and>
   handleGenerateCases_start fx_bear 1000 fx_gen_reopened
     = (fx_gen_st2 1000,
        Some (fx_gen_req\<lparr> req_appType := WEB, req_appContextValue := [], req_testEmail := [],
                          req_importMode := False \<rparr>)) \<and>
   genOpRef (fx_gen_st2 1000) = 1000 \<and> isGenerating (fx_gen_st2 1000) \<and>
   map cases (suites (fx_gen_st2 1000))
     = [[fx_case ''c1'' ''Valid login'', fx_case ''c2'' ''Wrong password''],
        [fx_case ''c1'' ''Valid login'', fx_case ''c2'' ''Wrong password'']] \<and>
   fst (handleGenerateCases_settle fx_gen_req
          (Inr [fx_case ''g1'' ''Late case'']) (fx_gen_st2 1000)) = [] \<and>
   map cases (suites (snd (handleGenerateCases_settle fx_gen_req
                             (Inr [fx_case ''g1'' ''Late case'']) (fx_gen_st2 1000))))
     = [[fx_case ''c1'' ''Valid login'', fx_case ''c2'' ''Wrong password'',
         fx_case ''g1'' ''Late case''],
        [fx_case ''c1'' ''Valid login'', fx_case ''c2'' ''Wrong password'']] \<and>
   \<not> isGenerating (snd (handleGenerateCases_settle fx_gen_req
                          (Inr [fx_case ''g1'' ''Late case'']) (fx_gen_st2 1000))) \<and>
   handleGenerateCases_settle fx_gen_req (Inr [fx_case ''g1'' ''Late case'']) (fx_gen_st2 2000)
     = ([], fx_gen_st2 2000)"
  unfolding fx_gen_st2_def fx_gen_reopened_def fx_gen_st1_def fx_gen_req_def fx_gen_st0_def
  by code_simp

end
